theory Spec2Isabelle
  imports Main "HOL-Library.AList"
begin

section \<open>Values, documents and exceptions\<close>

text \<open>
  The handlers of \<^verbatim>\<open>main.py\<close> move JSON-like Python values around: \<^verbatim>\<open>None\<close>, booleans,
  integers, strings, BSON object ids (their bytes), lists, and dictionaries. A dictionary keeps
  its insertion order, so it is an association list; \<^verbatim>\<open>d[k] = v\<close> is \<open>AList.update\<close>
  (replace in place, or append) and \<^verbatim>\<open>d.pop(k)\<close> removes the key with \<open>AList.delete\<close>.
\<close>

datatype pyval =
    VNone
  | VBool bool
  | VInt int
  | VStr string
  | VOid "nat list"
  | VList "pyval list"
  | VDict "(string \<times> pyval) list"

type_synonym doc = "(string \<times> pyval) list"

text \<open>
  An exception raised by library code is its class name and its \<^verbatim>\<open>str(e)\<close>. At the level of a
  handler an exception is FastAPI's \<^verbatim>\<open>HTTPException(status_code, detail)\<close>, the validation error
  of the request body, or any other exception, which the framework answers with status 500.
\<close>

datatype py_exception = PyException (exc_class: string) (exc_str: string)

datatype exn =
    HTTPException nat string
  | RequestValidationError
  | Unhandled py_exception

fun http_status :: "exn + 'a \<Rightarrow> nat" where
  "http_status (Inr _) = 200"
| "http_status (Inl (HTTPException code _)) = code"
| "http_status (Inl RequestValidationError) = 422"
| "http_status (Inl (Unhandled _)) = 500"

section \<open>Python built-ins used by the handlers\<close>

text \<open>Truth value of an \<^verbatim>\<open>Optional[str]\<close>: \<^verbatim>\<open>None\<close> and the empty string are false.\<close>

definition truthy :: "string option \<Rightarrow> bool" where
  "truthy s = (case s of None \<Rightarrow> False | Some v \<Rightarrow> v \<noteq> [])"

text \<open>\<^verbatim>\<open>s or default\<close> on an \<^verbatim>\<open>Optional[str]\<close>.\<close>

definition str_or :: "string option \<Rightarrow> string \<Rightarrow> string" where
  "str_or s dflt = (case s of None \<Rightarrow> dflt | Some v \<Rightarrow> if v = [] then dflt else v)"

text \<open>\<^verbatim>\<open>if v: filt[k] = v\<close>\<close>

definition setitem_if :: "string \<Rightarrow> string option \<Rightarrow> doc \<Rightarrow> doc" where
  "setitem_if k v filt =
     (case v of None \<Rightarrow> filt
      | Some s \<Rightarrow> if s = [] then filt else AList.update k (VStr s) filt)"

text \<open>
  The whitespace of C's \<^verbatim>\<open>isspace\<close> in the C locale, which \<^verbatim>\<open>int\<close> and \<^verbatim>\<open>bytes.fromhex\<close>
  skip: tab, line feed, vertical tab, form feed, carriage return and space.
\<close>

definition is_space :: "char \<Rightarrow> bool" where
  "is_space c = (c \<in> set [CHR 0x09, CHR 0x0A, CHR 0x0B, CHR 0x0C, CHR 0x0D, CHR 0x20])"

text \<open>
  \<^verbatim>\<open>repr(s)\<close> of a string: single quotes, or double quotes when the string has a single
  quote and no double quote; the quote character and the backslash are escaped, tab, line
  feed and carriage return print as \<^verbatim>\<open>\t\<close>, \<^verbatim>\<open>\n\<close>, \<^verbatim>\<open>\r\<close>, the other control characters
  and DEL as \<^verbatim>\<open>\xhh\<close>. Strings are byte strings here; bytes from 0x80 on are copied, as
  Python copies printable characters beyond ASCII.
\<close>

definition hex_digit :: "nat \<Rightarrow> char" where
  "hex_digit n = ''0123456789abcdef'' ! (n mod 16)"

definition repr_char :: "char \<Rightarrow> char \<Rightarrow> string" where
  "repr_char quote c =
     (if c = quote \<or> c = CHR 0x5C then [CHR 0x5C, c]
      else if c = CHR 0x09 then [CHR 0x5C, CHR ''t'']
      else if c = CHR 0x0A then [CHR 0x5C, CHR ''n'']
      else if c = CHR 0x0D then [CHR 0x5C, CHR ''r'']
      else if (of_char c :: nat) < 32 \<or> c = CHR 0x7F then
        [CHR 0x5C, CHR ''x'', hex_digit (of_char c div 16), hex_digit (of_char c)]
      else [c])"

definition py_repr :: "string \<Rightarrow> string" where
  "py_repr s =
     (let quote = (if CHR 0x27 \<in> set s \<and> CHR 0x22 \<notin> set s then CHR 0x22 else CHR 0x27)
      in quote # concat (map (repr_char quote) s) @ [quote])"

text \<open>
  \<^verbatim>\<open>int(s)\<close> on a string, base 10: surrounding whitespace is skipped, one sign is allowed, and
  the rest is a non-empty run of decimal digits in which single underscores may separate
  digits. Anything else raises \<^verbatim>\<open>ValueError\<close>, whose text ends in the first 200 characters of
  \<^verbatim>\<open>repr(s)\<close>. This is \<^verbatim>\<open>int\<close> on ASCII strings (in a string with characters beyond ASCII
  Python also accepts the Unicode spaces and decimal digits); the limit of 4300 digits on
  the numeral is left out.
\<close>

definition digit_value :: "char \<Rightarrow> nat option" where
  "digit_value c = map_of (zip ''0123456789'' [0, 1, 2, 3, 4, 5, 6, 7, 8, 9]) c"

fun parse_digits :: "bool \<Rightarrow> int \<Rightarrow> string \<Rightarrow> int option" where
  "parse_digits after_digit acc [] = (if after_digit then Some acc else None)"
| "parse_digits after_digit acc (c # cs) =
     (case digit_value c of
        Some v \<Rightarrow> parse_digits True (10 * acc + int v) cs
      | None \<Rightarrow> if c = CHR ''_'' \<and> after_digit then parse_digits False acc cs else None)"

definition strip :: "string \<Rightarrow> string" where
  "strip s = rev (dropWhile is_space (rev (dropWhile is_space s)))"

definition py_int :: "string \<Rightarrow> py_exception + int" where
  "py_int s =
     (let t = strip s;
          (sign, ds) = (case t of
                          c # r \<Rightarrow> if c = CHR ''-'' then (- 1, r)
                                   else if c = CHR ''+'' then (1, r) else (1, t)
                        | [] \<Rightarrow> (1, t))
      in case parse_digits False 0 ds of
           None \<Rightarrow> Inl (PyException ''ValueError''
                          (''invalid literal for int() with base 10: '' @ take 200 (py_repr s)))
         | Some n \<Rightarrow> Inr (sign * n))"

text \<open>
  \<^verbatim>\<open>bson.ObjectId(s)\<close> on a string: the string must have 24 characters and
  \<^verbatim>\<open>bytes.fromhex\<close> must accept it; \<^verbatim>\<open>fromhex\<close> reads pairs of hexadecimal digits and skips
  whitespace between pairs. Otherwise \<^verbatim>\<open>InvalidId\<close> is raised.
\<close>

definition hex_value :: "char \<Rightarrow> nat option" where
  "hex_value c = map_of (zip ''0123456789abcdefABCDEF''
                   [0, 1, 2, 3, 4, 5, 6, 7, 8, 9, 10, 11, 12, 13, 14, 15, 10, 11, 12, 13, 14, 15]) c"

fun fromhex :: "string \<Rightarrow> nat list option" where
  "fromhex [] = Some []"
| "fromhex [c] = (if is_space c then Some [] else None)"
| "fromhex (c # d # cs) =
     (if is_space c then fromhex (d # cs)
      else case (hex_value c, hex_value d) of
             (Some a, Some b) \<Rightarrow> map_option ((#) (16 * a + b)) (fromhex cs)
           | _ \<Rightarrow> None)"

definition invalid_id :: "string \<Rightarrow> py_exception" where
  "invalid_id oid =
     PyException ''InvalidId''
       (py_repr oid @
        '' is not a valid ObjectId, it must be a 12-byte input or a 24-character hex string'')"

definition ObjectId :: "string \<Rightarrow> py_exception + pyval" where
  "ObjectId oid =
     (if length oid = 24 then
        (case fromhex oid of
           None \<Rightarrow> Inl (invalid_id oid)
         | Some bs \<Rightarrow> Inr (VOid bs))
      else Inl (invalid_id oid))"

text \<open>
  \<^verbatim>\<open>str(v)\<close> is a parameter \<open>str_of\<close> of the functions that call it, so that what is
  proved of them holds of every value. The examples below run them with the following
  function, which is \<^verbatim>\<open>str\<close> on strings, object ids (the lower-case hexadecimal digits of
  the bytes), \<^verbatim>\<open>None\<close> and booleans; the string forms of integers, lists and dictionaries
  are not written out, and the empty string stands for them.
\<close>

definition hexlify :: "nat list \<Rightarrow> string" where
  "hexlify bs = concat (map (\<lambda>b. [hex_digit (b div 16), hex_digit b]) bs)"

fun str_plain :: "pyval \<Rightarrow> string" where
  "str_plain (VStr s) = s"
| "str_plain (VOid bs) = hexlify bs"
| "str_plain VNone = ''None''"
| "str_plain (VBool b) = (if b then ''True'' else ''False'')"
| "str_plain _ = []"

text \<open>The process environment, \<^verbatim>\<open>os.getenv(k)\<close> and \<^verbatim>\<open>os.getenv(k, default)\<close>.\<close>

type_synonym environ = "string \<Rightarrow> string option"

definition getenv :: "environ \<Rightarrow> string \<Rightarrow> string option" where
  "getenv env k = env k"

definition getenv_default :: "environ \<Rightarrow> string \<Rightarrow> string \<Rightarrow> string" where
  "getenv_default env k dflt = (case env k of None \<Rightarrow> dflt | Some v \<Rightarrow> v)"

section \<open>Document serialization\<close>

text \<open>
  \<^verbatim>\<open>
  def serialize_doc(doc):
      d = dict(doc)
      if "_id" in d:
          d["id"] = str(d.pop("_id"))
      return d
  \<close>
  As a function from the document to the returned dictionary:
\<close>

definition serialize_doc :: "(pyval \<Rightarrow> string) \<Rightarrow> doc \<Rightarrow> doc" where
  "serialize_doc str_of doc =
     (case map_of doc ''_id'' of
        None \<Rightarrow> doc
      | Some v \<Rightarrow> AList.update ''id'' (VStr (str_of v)) (AList.delete ''_id'' doc))"

text \<open>
  Whether the caller's dictionary is changed depends on which object each statement writes
  to, so the same function is also given over a store of dictionary objects: an address is an
  index into the store, \<^verbatim>\<open>dict(doc)\<close> allocates a new object holding the same items, and
  \<^verbatim>\<open>pop\<close> and item assignment update the object they are called on. A reference always
  points to an allocated object (\<open>a < length h\<close>).
\<close>

type_synonym heap = "doc list"

definition dict_copy :: "nat \<Rightarrow> heap \<Rightarrow> nat \<times> heap" where
  "dict_copy a h = (length h, h @ [h ! a])"

definition dict_contains :: "nat \<Rightarrow> string \<Rightarrow> heap \<Rightarrow> bool" where
  "dict_contains a k h = (map_of (h ! a) k \<noteq> None)"

definition dict_pop :: "nat \<Rightarrow> string \<Rightarrow> heap \<Rightarrow> (py_exception + pyval) \<times> heap" where
  "dict_pop a k h =
     (case map_of (h ! a) k of
        None \<Rightarrow> (Inl (PyException ''KeyError'' (py_repr k)), h)
      | Some v \<Rightarrow> (Inr v, h[a := AList.delete k (h ! a)]))"

definition dict_setitem :: "nat \<Rightarrow> string \<Rightarrow> pyval \<Rightarrow> heap \<Rightarrow> heap" where
  "dict_setitem a k v h = h[a := AList.update k v (h ! a)]"

definition serialize_doc_st ::
  "(pyval \<Rightarrow> string) \<Rightarrow> nat \<Rightarrow> heap \<Rightarrow> (py_exception + nat) \<times> heap" where
  "serialize_doc_st str_of doc h =
     (let (d, h1) = dict_copy doc h in
      if dict_contains d ''_id'' h1 then
        (case dict_pop d ''_id'' h1 of
           (Inl e, h2) \<Rightarrow> (Inl e, h2)
         | (Inr v, h2) \<Rightarrow> (Inr d, dict_setitem d ''id'' (VStr (str_of v)) h2))
      else (Inr d, h1))"

section \<open>Schemas\<close>

text \<open>
  The models of \<^verbatim>\<open>schemas.py\<close>. A field of type \<^verbatim>\<open>str\<close> is required, a field of type
  \<^verbatim>\<open>Optional[str] = None\<close> may be left out. Field names carry the model's name as a prefix.
\<close>

record Product =
  product_title :: string
  product_description :: "string option"
  product_category :: string
  product_material_type :: "string option"
  product_size :: "string option"
  product_weight :: "string option"
  product_images :: "string list"
  product_specs :: "doc option"
  product_is_active :: bool

record Project =
  project_title :: string
  project_description :: "string option"
  project_materials_used :: "string list"
  project_images :: "string list"
  project_is_featured :: bool
  project_is_active :: bool

record QuoteRequest =
  quote_name :: string
  quote_company :: "string option"
  quote_email :: string
  quote_phone :: "string option"
  quote_message :: "string option"
  quote_product :: "string option"

record ContactMessage =
  contact_name :: string
  contact_company :: "string option"
  contact_email :: string
  contact_phone :: "string option"
  contact_message :: string
  contact_interest :: "string option"

datatype model =
    MProduct Product
  | MProject Project
  | MQuote QuoteRequest
  | MContact ContactMessage

text \<open>
  Validation of a request body against a model, as the framework does it before it calls the
  handler: the body must be a JSON object; a \<^verbatim>\<open>str\<close> field must be present and a string; an
  \<^verbatim>\<open>Optional[str]\<close> field may be absent or null, and must be a string otherwise; an
  \<^verbatim>\<open>EmailStr\<close> field must be a string that the e-mail validator accepts, and takes the
  normalised address the validator returns. Keys that the model does not declare are ignored.
  The e-mail validator is a library function and a parameter \<open>validate_email\<close> here.
\<close>

definition required_str :: "doc \<Rightarrow> string \<Rightarrow> string option" where
  "required_str obj k = (case map_of obj k of Some (VStr s) \<Rightarrow> Some s | _ \<Rightarrow> None)"

definition optional_str :: "doc \<Rightarrow> string \<Rightarrow> string option option" where
  "optional_str obj k =
     (case map_of obj k of
        None \<Rightarrow> Some None
      | Some VNone \<Rightarrow> Some None
      | Some (VStr s) \<Rightarrow> Some (Some s)
      | Some _ \<Rightarrow> None)"

definition email_str :: "(string \<Rightarrow> string option) \<Rightarrow> doc \<Rightarrow> string \<Rightarrow> string option" where
  "email_str validate_email obj k =
     (case map_of obj k of Some (VStr s) \<Rightarrow> validate_email s | _ \<Rightarrow> None)"

definition validate_QuoteRequest ::
  "(string \<Rightarrow> string option) \<Rightarrow> pyval \<Rightarrow> exn + QuoteRequest" where
  "validate_QuoteRequest validate_email body =
     (case body of
        VDict obj \<Rightarrow>
          (case (required_str obj ''name'', optional_str obj ''company'',
                 email_str validate_email obj ''email'', optional_str obj ''phone'',
                 optional_str obj ''message'', optional_str obj ''product'') of
             (Some n, Some c, Some e, Some ph, Some m, Some pr) \<Rightarrow>
               Inr \<lparr>quote_name = n, quote_company = c, quote_email = e, quote_phone = ph,
                    quote_message = m, quote_product = pr\<rparr>
           | _ \<Rightarrow> Inl RequestValidationError)
      | _ \<Rightarrow> Inl RequestValidationError)"

definition validate_ContactMessage ::
  "(string \<Rightarrow> string option) \<Rightarrow> pyval \<Rightarrow> exn + ContactMessage" where
  "validate_ContactMessage validate_email body =
     (case body of
        VDict obj \<Rightarrow>
          (case (required_str obj ''name'', optional_str obj ''company'',
                 email_str validate_email obj ''email'', optional_str obj ''phone'',
                 required_str obj ''message'', optional_str obj ''interest'') of
             (Some n, Some c, Some e, Some ph, Some m, Some i) \<Rightarrow>
               Inr \<lparr>contact_name = n, contact_company = c, contact_email = e, contact_phone = ph,
                    contact_message = m, contact_interest = i\<rparr>
           | _ \<Rightarrow> Inl RequestValidationError)
      | _ \<Rightarrow> Inl RequestValidationError)"

section \<open>The document store and the mail server\<close>

text \<open>
  \<^verbatim>\<open>database.py\<close> (\<^verbatim>\<open>db\<close>, \<^verbatim>\<open>create_document\<close>, \<^verbatim>\<open>get_documents\<close>) is not among the
  sources, and the database itself is external: the handlers are given over any store. An
  operation gets the contents \<open>'db\<close> of the database and either raises or returns; an insert
  also returns the new contents. \<open>find_one c f\<close> is \<^verbatim>\<open>db[c].find_one(f)\<close>, \<open>db_bool\<close> is
  \<^verbatim>\<open>bool(db)\<close>.
\<close>

record 'db store =
  create_document :: "string \<Rightarrow> model \<Rightarrow> 'db \<Rightarrow> (exn + pyval) \<times> 'db"
  get_documents :: "string \<Rightarrow> doc \<Rightarrow> int option \<Rightarrow> 'db \<Rightarrow> exn + doc list"
  find_one :: "string \<Rightarrow> doc \<Rightarrow> 'db \<Rightarrow> exn + doc option"
  list_collection_names :: "'db \<Rightarrow> py_exception + string list"
  db_bool :: "'db \<Rightarrow> py_exception + bool"

text \<open>
  The mail libraries: \<^verbatim>\<open>MIMEText\<close> with its three headers, its \<^verbatim>\<open>as_string()\<close>, and the
  calls on \<^verbatim>\<open>smtplib.SMTP_SSL\<close>. Each call either raises (\<open>Some e\<close>) or succeeds.
  \<open>smtp_quit\<close> is what leaving the \<^verbatim>\<open>with\<close> block does.
\<close>

record MIMEText =
  mime_body :: string
  mime_subject :: string
  mime_from :: string
  mime_to :: string

record mailer =
  as_string :: "MIMEText \<Rightarrow> py_exception + string"
  smtp_connect :: "string \<Rightarrow> int \<Rightarrow> py_exception option"
  smtp_login :: "string \<Rightarrow> string \<Rightarrow> py_exception option"
  smtp_sendmail :: "string \<Rightarrow> string list \<Rightarrow> string \<Rightarrow> py_exception option"
  smtp_quit :: "py_exception option"

text \<open>The calls a handler makes to the outside, in the order it makes them.\<close>

datatype event =
    CreateDocument string model
  | MaybeSendEmail string string
  | SmtpConnect string int
  | SmtpLogin string string
  | SmtpSendmail string "string list" string
  | SmtpQuit

section \<open>E-mail notification\<close>

record EmailResult =
  sent :: bool
  detail :: string

definition model_dump :: "EmailResult \<Rightarrow> pyval" where
  "model_dump r = VDict [(''sent'', VBool (sent r)), (''detail'', VStr (detail r))]"

text \<open>
  The \<^verbatim>\<open>with smtplib.SMTP_SSL(host, port) as server:\<close> block of \<^verbatim>\<open>maybe_send_email\<close>: the
  result is the exception that leaves the block, if any. When the constructor raises, the
  block is not entered; otherwise the block is left through \<open>smtp_quit\<close>, whose exception
  replaces the one of the body.
\<close>

definition smtp_session ::
  "mailer \<Rightarrow> string \<Rightarrow> int \<Rightarrow> string option \<Rightarrow> string option \<Rightarrow> string \<Rightarrow> string \<Rightarrow>
   MIMEText \<Rightarrow> py_exception option \<times> event list" where
  "smtp_session M host port user pass email_from email_to msg =
     (case smtp_connect M host port of
        Some e \<Rightarrow> (Some e, [SmtpConnect host port])
      | None \<Rightarrow>
          let (r1, ev1) =
                (case (user, pass) of
                   (Some u, Some p) \<Rightarrow>
                     if u \<noteq> [] \<and> p \<noteq> [] then (smtp_login M u p, [SmtpLogin u p])
                     else (None, [])
                 | _ \<Rightarrow> (None, []));
              (r2, ev2) =
                (case r1 of
                   Some e \<Rightarrow> (Some e, [])
                 | None \<Rightarrow>
                     (case as_string M msg of
                        Inl e \<Rightarrow> (Some e, [])
                      | Inr s \<Rightarrow> (smtp_sendmail M email_from [email_to] s,
                                  [SmtpSendmail email_from [email_to] s])))
          in ((case smtp_quit M of Some e \<Rightarrow> Some e | None \<Rightarrow> r2),
              SmtpConnect host port # ev1 @ ev2 @ [SmtpQuit]))"

definition not_configured :: EmailResult where
  "not_configured =
     \<lparr>sent = False, detail = ''SMTP not configured; entry logged to database only.''\<rparr>"

definition maybe_send_email ::
  "mailer \<Rightarrow> environ \<Rightarrow> string \<Rightarrow> string \<Rightarrow> (py_exception + EmailResult) \<times> event list" where
  "maybe_send_email M env subject body =
     (let smtp_host = getenv env ''SMTP_HOST'' in
      case py_int (getenv_default env ''SMTP_PORT'' ''0'') of
        Inl e \<Rightarrow> (Inl e, [MaybeSendEmail subject body])
      | Inr n \<Rightarrow>
          let smtp_port = (if n = 0 then None else Some n);
              smtp_user = getenv env ''SMTP_USER'';
              smtp_pass = getenv env ''SMTP_PASS'';
              email_to = getenv env ''EMAIL_TO'';
              email_from = getenv_default env ''EMAIL_FROM''
                             (str_or smtp_user ''noreply@example.com'')
          in (case (smtp_host, smtp_port, email_to) of
                (Some host, Some port, Some rcpt) \<Rightarrow>
                  if host = [] \<or> rcpt = [] then
                    (Inr not_configured, [MaybeSendEmail subject body])
                  else
                    (case smtp_session M host port smtp_user smtp_pass email_from rcpt
                            \<lparr>mime_body = body, mime_subject = subject,
                             mime_from = email_from, mime_to = rcpt\<rparr> of
                       (None, evs) \<Rightarrow>
                         (Inr \<lparr>sent = True, detail = ''Email sent''\<rparr>,
                          MaybeSendEmail subject body # evs)
                     | (Some e, evs) \<Rightarrow>
                         (Inr \<lparr>sent = False, detail = ''Email error: '' @ exc_str e\<rparr>,
                          MaybeSendEmail subject body # evs))
              | _ \<Rightarrow> (Inr not_configured, [MaybeSendEmail subject body])))"

section \<open>Handlers\<close>

definition root :: pyval where
  "root = VDict [(''status'', VStr ''ok''), (''service'', VStr ''Diwan Al-Ardiya Backend'')]"

text \<open>
  \<^verbatim>\<open>test_database\<close> evaluates \<^verbatim>\<open>bool(db)\<close> for the conditional expression and once more for
  the result; an exception of any of the calls gives the second dictionary.
\<close>

definition test_database_error :: "py_exception \<Rightarrow> pyval" where
  "test_database_error e =
     VDict [(''backend'', VStr ''running''), (''db_connected'', VBool False),
            (''error'', VStr (exc_str e))]"

definition test_database :: "'db store \<Rightarrow> 'db \<Rightarrow> pyval" where
  "test_database S d =
     (case (case db_bool S d of
              Inl e \<Rightarrow> Inl e
            | Inr b \<Rightarrow> if b then list_collection_names S d else Inr []) of
        Inl e \<Rightarrow> test_database_error e
      | Inr collections \<Rightarrow>
          (case db_bool S d of
             Inl e \<Rightarrow> test_database_error e
           | Inr b \<Rightarrow>
               VDict [(''backend'', VStr ''running''), (''db_connected'', VBool b),
                      (''collections'', VList (map VStr collections))]))"

definition get_categories :: pyval where
  "get_categories =
     VList [VStr ''Timber & Plywood'', VStr ''Steel & Rebar'',
            VStr ''Fixings & Hardware'', VStr ''HVAC & Installation'']"

text \<open>The filter that \<^verbatim>\<open>list_products\<close> builds before it queries the store.\<close>

definition text_search :: "string \<Rightarrow> pyval" where
  "text_search q =
     VList [VDict [(''title'', VDict [(''$regex'', VStr q), (''$options'', VStr ''i'')])],
            VDict [(''description'', VDict [(''$regex'', VStr q), (''$options'', VStr ''i'')])]]"

definition list_products_filt ::
  "string option \<Rightarrow> string option \<Rightarrow> string option \<Rightarrow> string option \<Rightarrow> doc" where
  "list_products_filt category material_type sz q =
     (let filt = [(''is_active'', VBool True)];
          filt = setitem_if ''category'' category filt;
          filt = setitem_if ''material_type'' material_type filt;
          filt = setitem_if ''size'' sz filt
      in case q of
           None \<Rightarrow> filt
         | Some s \<Rightarrow> if s = [] then filt else AList.update ''$or'' (text_search s) filt)"

definition list_products ::
  "'db store \<Rightarrow> (pyval \<Rightarrow> string) \<Rightarrow> string option \<Rightarrow> string option \<Rightarrow> string option \<Rightarrow>
   string option \<Rightarrow> int option \<Rightarrow> 'db \<Rightarrow> exn + pyval" where
  "list_products S str_of category material_type sz q limit d =
     (case get_documents S ''product'' (list_products_filt category material_type sz q) limit d of
        Inl e \<Rightarrow> Inl e
      | Inr docs \<Rightarrow> Inr (VList (map (\<lambda>x. VDict (serialize_doc str_of x)) docs)))"

text \<open>
  The query string of \<^verbatim>\<open>GET /api/products\<close>; a parameter the client leaves out is \<open>None\<close>,
  and \<^verbatim>\<open>limit\<close> then takes the default of the signature.
\<close>

record products_query =
  query_category :: "string option"
  query_material_type :: "string option"
  query_size :: "string option"
  query_q :: "string option"
  query_limit :: "int option"

definition default_limit :: "int option \<Rightarrow> int option" where
  "default_limit l = (case l of None \<Rightarrow> Some 100 | Some n \<Rightarrow> Some n)"

definition api_products ::
  "'db store \<Rightarrow> (pyval \<Rightarrow> string) \<Rightarrow> products_query \<Rightarrow> 'db \<Rightarrow> exn + pyval" where
  "api_products S str_of qs d =
     list_products S str_of (query_category qs) (query_material_type qs) (query_size qs)
       (query_q qs) (default_limit (query_limit qs)) d"

text \<open>
  In \<^verbatim>\<open>get_product\<close> and \<^verbatim>\<open>get_project\<close>, \<^verbatim>\<open>not doc\<close> holds of \<^verbatim>\<open>None\<close> and of the
  empty dictionary; the \<^verbatim>\<open>except Exception\<close> clause catches every exception of the body,
  the \<^verbatim>\<open>HTTPException\<close> raised there included.
\<close>

definition get_product :: "'db store \<Rightarrow> (pyval \<Rightarrow> string) \<Rightarrow> string \<Rightarrow> 'db \<Rightarrow> exn + pyval" where
  "get_product S str_of product_id d =
     (case (case ObjectId product_id of
              Inl e \<Rightarrow> Inl (Unhandled e)
            | Inr oid \<Rightarrow>
                (case find_one S ''product'' [(''_id'', oid)] d of
                   Inl e \<Rightarrow> Inl e
                 | Inr None \<Rightarrow> Inl (HTTPException 404 ''Product not found'')
                 | Inr (Some doc) \<Rightarrow>
                     if doc = [] then Inl (HTTPException 404 ''Product not found'')
                     else Inr (VDict (serialize_doc str_of doc)))) of
        Inl e \<Rightarrow> Inl (HTTPException 404 ''Product not found'')
      | Inr r \<Rightarrow> Inr r)"

definition get_project :: "'db store \<Rightarrow> (pyval \<Rightarrow> string) \<Rightarrow> string \<Rightarrow> 'db \<Rightarrow> exn + pyval" where
  "get_project S str_of project_id d =
     (case (case ObjectId project_id of
              Inl e \<Rightarrow> Inl (Unhandled e)
            | Inr oid \<Rightarrow>
                (case find_one S ''project'' [(''_id'', oid)] d of
                   Inl e \<Rightarrow> Inl e
                 | Inr None \<Rightarrow> Inl (HTTPException 404 ''Project not found'')
                 | Inr (Some doc) \<Rightarrow>
                     if doc = [] then Inl (HTTPException 404 ''Project not found'')
                     else Inr (VDict (serialize_doc str_of doc)))) of
        Inl e \<Rightarrow> Inl (HTTPException 404 ''Project not found'')
      | Inr r \<Rightarrow> Inr r)"

definition list_projects ::
  "'db store \<Rightarrow> (pyval \<Rightarrow> string) \<Rightarrow> int option \<Rightarrow> 'db \<Rightarrow> exn + pyval" where
  "list_projects S str_of limit d =
     (case get_documents S ''project'' [(''is_active'', VBool True)] limit d of
        Inl e \<Rightarrow> Inl e
      | Inr docs \<Rightarrow> Inr (VList (map (\<lambda>x. VDict (serialize_doc str_of x)) docs)))"

text \<open>
  A handler that inserts returns its result, the contents of the database afterwards, and the
  calls it made.
\<close>

definition create_product :: "'db store \<Rightarrow> Product \<Rightarrow> 'db \<Rightarrow> (exn + pyval) \<times> 'db \<times> event list" where
  "create_product S payload d =
     (case create_document S ''product'' (MProduct payload) d of
        (Inl e, d') \<Rightarrow> (Inl e, d', [CreateDocument ''product'' (MProduct payload)])
      | (Inr inserted_id, d') \<Rightarrow>
          (Inr (VDict [(''id'', inserted_id)]), d',
           [CreateDocument ''product'' (MProduct payload)]))"

definition create_project :: "'db store \<Rightarrow> Project \<Rightarrow> 'db \<Rightarrow> (exn + pyval) \<times> 'db \<times> event list" where
  "create_project S payload d =
     (case create_document S ''project'' (MProject payload) d of
        (Inl e, d') \<Rightarrow> (Inl e, d', [CreateDocument ''project'' (MProject payload)])
      | (Inr inserted_id, d') \<Rightarrow>
          (Inr (VDict [(''id'', inserted_id)]), d',
           [CreateDocument ''project'' (MProject payload)]))"

definition nl :: string where
  "nl = [CHR 0x0A]"

definition quote_body :: "QuoteRequest \<Rightarrow> string" where
  "quote_body payload =
     ''New Quote Request'' @ nl @ nl @
     ''Name: '' @ quote_name payload @ nl @
     ''Company: '' @ str_or (quote_company payload) ''-'' @ nl @
     ''Email: '' @ quote_email payload @ nl @
     ''Phone: '' @ str_or (quote_phone payload) ''-'' @ nl @
     ''Product: '' @ str_or (quote_product payload) ''-'' @ nl @ nl @
     ''Message:'' @ nl @ str_or (quote_message payload) ''-'' @ nl"

definition contact_body :: "ContactMessage \<Rightarrow> string" where
  "contact_body payload =
     ''New Contact Message'' @ nl @ nl @
     ''Name: '' @ contact_name payload @ nl @
     ''Company: '' @ str_or (contact_company payload) ''-'' @ nl @
     ''Email: '' @ contact_email payload @ nl @
     ''Phone: '' @ str_or (contact_phone payload) ''-'' @ nl @
     ''Interest: '' @ str_or (contact_interest payload) ''-'' @ nl @ nl @
     ''Message:'' @ nl @ contact_message payload @ nl"

text \<open>
  \<^verbatim>\<open>create_quote\<close> and \<^verbatim>\<open>create_contact\<close>: insert, build the body, try the e-mail, answer.
  An exception of \<^verbatim>\<open>create_document\<close> or of \<^verbatim>\<open>maybe_send_email\<close> leaves the handler.
\<close>

definition create_quote ::
  "'db store \<Rightarrow> mailer \<Rightarrow> environ \<Rightarrow> QuoteRequest \<Rightarrow> 'db \<Rightarrow> (exn + pyval) \<times> 'db \<times> event list" where
  "create_quote S M env payload d =
     (case create_document S ''quoterequest'' (MQuote payload) d of
        (Inl e, d') \<Rightarrow> (Inl e, d', [CreateDocument ''quoterequest'' (MQuote payload)])
      | (Inr quote_id, d') \<Rightarrow>
          (case maybe_send_email M env ''New Quote Request'' (quote_body payload) of
             (Inl e, evs) \<Rightarrow>
               (Inl (Unhandled e), d', CreateDocument ''quoterequest'' (MQuote payload) # evs)
           | (Inr email_res, evs) \<Rightarrow>
               (Inr (VDict [(''id'', quote_id), (''email'', model_dump email_res)]), d',
                CreateDocument ''quoterequest'' (MQuote payload) # evs)))"

definition create_contact ::
  "'db store \<Rightarrow> mailer \<Rightarrow> environ \<Rightarrow> ContactMessage \<Rightarrow> 'db \<Rightarrow> (exn + pyval) \<times> 'db \<times> event list" where
  "create_contact S M env payload d =
     (case create_document S ''contactmessage'' (MContact payload) d of
        (Inl e, d') \<Rightarrow> (Inl e, d', [CreateDocument ''contactmessage'' (MContact payload)])
      | (Inr msg_id, d') \<Rightarrow>
          (case maybe_send_email M env ''New Contact Message'' (contact_body payload) of
             (Inl e, evs) \<Rightarrow>
               (Inl (Unhandled e), d', CreateDocument ''contactmessage'' (MContact payload) # evs)
           | (Inr email_res, evs) \<Rightarrow>
               (Inr (VDict [(''id'', msg_id), (''email'', model_dump email_res)]), d',
                CreateDocument ''contactmessage'' (MContact payload) # evs)))"

text \<open>
  The routes \<^verbatim>\<open>POST /api/quote\<close> and \<^verbatim>\<open>POST /api/contact\<close>: the framework validates the
  body against the model of the handler's parameter and calls the handler with the model only
  when the validation succeeds.
\<close>

definition api_quote ::
  "'db store \<Rightarrow> mailer \<Rightarrow> (string \<Rightarrow> string option) \<Rightarrow> environ \<Rightarrow> pyval \<Rightarrow> 'db \<Rightarrow>
   (exn + pyval) \<times> 'db \<times> event list" where
  "api_quote S M validate_email env body d =
     (case validate_QuoteRequest validate_email body of
        Inl e \<Rightarrow> (Inl e, d, [])
      | Inr payload \<Rightarrow> create_quote S M env payload d)"

definition api_contact ::
  "'db store \<Rightarrow> mailer \<Rightarrow> (string \<Rightarrow> string option) \<Rightarrow> environ \<Rightarrow> pyval \<Rightarrow> 'db \<Rightarrow>
   (exn + pyval) \<times> 'db \<times> event list" where
  "api_contact S M validate_email env body d =
     (case validate_ContactMessage validate_email body of
        Inl e \<Rightarrow> (Inl e, d, [])
      | Inr payload \<Rightarrow> create_contact S M env payload d)"

section \<open>The application\<close>

text \<open>
  The routes of the application. The bodies of the two lead-capture routes arrive as JSON
  and are validated here; the bodies of \<^verbatim>\<open>POST /api/products\<close> and \<^verbatim>\<open>POST /api/projects\<close>
  are taken as already validated models.
\<close>

datatype request =
    GetRoot
  | GetTest
  | GetCategories
  | GetProducts products_query
  | GetProduct string
  | PostProduct Product
  | GetProjects "int option"
  | GetProject string
  | PostProject Project
  | PostQuote pyval
  | PostContact pyval

fun handle ::
  "'db store \<Rightarrow> mailer \<Rightarrow> (string \<Rightarrow> string option) \<Rightarrow> (pyval \<Rightarrow> string) \<Rightarrow> environ \<Rightarrow>
   request \<Rightarrow> 'db \<Rightarrow> (exn + pyval) \<times> 'db \<times> event list" where
  "handle S M ve str_of env GetRoot d = (Inr root, d, [])"
| "handle S M ve str_of env GetTest d = (Inr (test_database S d), d, [])"
| "handle S M ve str_of env GetCategories d = (Inr get_categories, d, [])"
| "handle S M ve str_of env (GetProducts qs) d = (api_products S str_of qs d, d, [])"
| "handle S M ve str_of env (GetProduct product_id) d = (get_product S str_of product_id d, d, [])"
| "handle S M ve str_of env (PostProduct payload) d = create_product S payload d"
| "handle S M ve str_of env (GetProjects limit) d =
     (list_projects S str_of (default_limit limit) d, d, [])"
| "handle S M ve str_of env (GetProject project_id) d = (get_project S str_of project_id d, d, [])"
| "handle S M ve str_of env (PostProject payload) d = create_project S payload d"
| "handle S M ve str_of env (PostQuote body) d = api_quote S M ve env body d"
| "handle S M ve str_of env (PostContact body) d = api_contact S M ve env body d"


section \<open>Example surroundings\<close>

text \<open>
  A store in memory, two mail servers, two environments and some payloads, to run the
  handlers on concrete inputs. The store keeps the inserted models in order and numbers
  them; the first mail server accepts everything, the second refuses the connection.
\<close>

definition mem_store :: "(string \<times> model) list store" where
  "mem_store =
     \<lparr>create_document = (\<lambda>c m d. (Inr (VInt (int (length d))), d @ [(c, m)])),
      get_documents = (\<lambda>c f l d. Inr []),
      find_one = (\<lambda>c f d. Inr None),
      list_collection_names = (\<lambda>d. Inr (remdups (map fst d))),
      db_bool = (\<lambda>d. Inr True)\<rparr>"

text \<open>A store that finds, under every object id, a document with this id and a title.\<close>

definition found_store :: "(string \<times> model) list store" where
  "found_store = mem_store\<lparr>find_one := (\<lambda>c f d. Inr (Some (f @ [(''title'', VStr ''Oak'')])))\<rparr>"




definition env_blank_port :: environ where
  "env_blank_port = [''SMTP_HOST'' \<mapsto> ''smtp.example.com'', ''SMTP_PORT'' \<mapsto> [],
                     ''EMAIL_TO'' \<mapsto> ''sales@example.com'']"


definition quote_example :: QuoteRequest where
  "quote_example =
     \<lparr>quote_name = ''Ann'', quote_company = None, quote_email = ''ann@example.com'',
      quote_phone = None, quote_message = Some ''Price?'', quote_product = None\<rparr>"

definition contact_example :: ContactMessage where
  "contact_example =
     \<lparr>contact_name = ''Bob'', contact_company = None, contact_email = ''bob@example.com'',
      contact_phone = None, contact_message = ''Hello'', contact_interest = None\<rparr>"



text \<open>The events of a mail session.\<close>

fun is_smtp :: "event \<Rightarrow> bool" where
  "is_smtp (SmtpConnect _ _) = True"
| "is_smtp (SmtpLogin _ _) = True"
| "is_smtp (SmtpSendmail _ _ _) = True"
| "is_smtp SmtpQuit = True"
| "is_smtp _ = False"



section \<open>Serialization\<close>

lemma serialize_doc_st_eq:
  "a < length h \<Longrightarrow>
   serialize_doc_st str_of a h = (Inr (length h), h @ [serialize_doc str_of (h ! a)])"
  by (auto simp: serialize_doc_st_def serialize_doc_def dict_copy_def dict_contains_def
      dict_pop_def dict_setitem_def nth_append split: option.splits)

lemma serialize_doc_lookup:
  "map_of (serialize_doc str_of doc) k =
     (case map_of doc ''_id'' of
        None \<Rightarrow> map_of doc k
      | Some v \<Rightarrow> if k = ''id'' then Some (VStr (str_of v))
                  else if k = ''_id'' then None else map_of doc k)"
  by (auto simp: serialize_doc_def update_conv' delete_conv' split: option.splits)

lemma serialize_doc_no_id: "map_of doc ''_id'' = None \<Longrightarrow> serialize_doc str_of doc = doc"
  by (simp add: serialize_doc_def)

text \<open>
  C5. \<^verbatim>\<open>serialize_doc\<close> never raises and returns a new dictionary object. Every object that
  existed before the call, the argument included, holds the same items afterwards. If the
  document has no \<^verbatim>\<open>_id\<close> key the new dictionary equals the document. Otherwise the new
  dictionary has no \<^verbatim>\<open>_id\<close> key, its \<^verbatim>\<open>id\<close> key holds \<^verbatim>\<open>str\<close> of the document's \<^verbatim>\<open>_id\<close>,
  and every other key (other than \<^verbatim>\<open>_id\<close> and \<^verbatim>\<open>id\<close>) maps to what it maps to in the document.
\<close>

theorem serialize_doc_frame:
  assumes "a < length h"
  shows "\<exists>r h'. serialize_doc_st str_of a h = (Inr r, h') \<and> r \<noteq> a \<and> r < length h' \<and>
           (\<forall>b < length h. h' ! b = h ! b) \<and>
           (case map_of (h ! a) ''_id'' of
              None \<Rightarrow> h' ! r = h ! a
            | Some v \<Rightarrow>
                map_of (h' ! r) ''_id'' = None \<and>
                map_of (h' ! r) ''id'' = Some (VStr (str_of v)) \<and>
                (\<forall>k. k \<noteq> ''_id'' \<and> k \<noteq> ''id'' \<longrightarrow> map_of (h' ! r) k = map_of (h ! a) k))"
proof -
  let ?r = "length h" and ?h' = "h @ [serialize_doc str_of (h ! a)]"
  have run: "serialize_doc_st str_of a h = (Inr ?r, ?h')"
    using assms by (rule serialize_doc_st_eq)
  have old: "\<forall>b < length h. ?h' ! b = h ! b"
    by (simp add: nth_append)
  have new: "?h' ! ?r = serialize_doc str_of (h ! a)"
    by simp
  have res: "case map_of (h ! a) ''_id'' of
               None \<Rightarrow> ?h' ! ?r = h ! a
             | Some v \<Rightarrow>
                 map_of (?h' ! ?r) ''_id'' = None \<and>
                 map_of (?h' ! ?r) ''id'' = Some (VStr (str_of v)) \<and>
                 (\<forall>k. k \<noteq> ''_id'' \<and> k \<noteq> ''id'' \<longrightarrow> map_of (?h' ! ?r) k = map_of (h ! a) k)"
    unfolding new by (simp add: serialize_doc_lookup serialize_doc_no_id split: option.splits)
  from run old res assms show ?thesis
    by (intro exI [of _ ?r] exI [of _ ?h']) simp
qed

theorem serialize_doc_frame_witness:
  "(0::nat) < length [[(''_id'', VOid [1, 2]), (''title'', VStr ''Oak'')]] \<and>
   (\<exists>r h'. serialize_doc_st str_plain 0 [[(''_id'', VOid [1, 2]), (''title'', VStr ''Oak'')]] =
              (Inr r, h') \<and>
            r \<noteq> 0 \<and> h' ! 0 = [(''_id'', VOid [1, 2]), (''title'', VStr ''Oak'')] \<and>
            map_of (h' ! r) ''_id'' = None \<and>
            map_of (h' ! r) ''id'' = Some (VStr ''0102'') \<and>
            map_of (h' ! r) ''title'' = Some (VStr ''Oak''))"
proof -
  have h: "(0::nat) < length [[(''_id'', VOid [1, 2]), (''title'', VStr ''Oak'')]]"
    by simp
  from serialize_doc_frame [OF h, of str_plain] h show ?thesis
    by (auto simp: hexlify_def hex_digit_def)
qed

section \<open>Categories\<close>

text \<open>
  C10. \<^verbatim>\<open>GET /api/categories\<close> answers with the same list of four names, in this order,
  whatever the store, the mail server, the environment and the contents of the database
  are, and leaves the database as it is.
\<close>

theorem get_categories_fixed:
  "handle S M ve str_of env GetCategories d =
     (Inr (VList [VStr ''Timber & Plywood'', VStr ''Steel & Rebar'',
                  VStr ''Fixings & Hardware'', VStr ''HVAC & Installation'']), d, [])"
  by (simp add: get_categories_def)

section \<open>The product filter\<close>

lemma map_of_setitem_if:
  "map_of (setitem_if k v filt) k' =
     (if k' = k \<and> truthy v then map_option VStr v else map_of filt k')"
  by (auto simp: setitem_if_def truthy_def update_conv' split: option.splits)

lemma keys_setitem_if: "fst ` set (setitem_if k v filt) \<subseteq> insert k (fst ` set filt)"
  by (auto simp: setitem_if_def dom_update split: option.splits)

lemma truthy_simps:
  "truthy None = False"
  "truthy (Some s) = (s \<noteq> [])"
  by (simp_all add: truthy_def)

lemma list_products_filt_unfold:
  "list_products_filt category material_type sz q =
     (let f3 = setitem_if ''size'' sz
                 (setitem_if ''material_type'' material_type
                   (setitem_if ''category'' category [(''is_active'', VBool True)]))
      in if truthy q then AList.update ''$or'' (text_search (the q)) f3 else f3)"
  by (cases q) (auto simp: list_products_filt_def truthy_simps Let_def)

lemma keys_list_products_filt:
  "fst ` set (list_products_filt category material_type sz q) \<subseteq>
     {''is_active'', ''category'', ''material_type'', ''size'', ''$or''}"
proof -
  let ?f0 = "[(''is_active'', VBool True)]"
  let ?f1 = "setitem_if ''category'' category ?f0"
  let ?f2 = "setitem_if ''material_type'' material_type ?f1"
  let ?f3 = "setitem_if ''size'' sz ?f2"
  have k0: "fst ` set ?f0 \<subseteq> {''is_active''}"
    by simp
  have k1: "fst ` set ?f1 \<subseteq> {''is_active'', ''category''}"
    using keys_setitem_if [of "''category''" category ?f0] k0 by blast
  have k2: "fst ` set ?f2 \<subseteq> {''is_active'', ''category'', ''material_type''}"
    using keys_setitem_if [of "''material_type''" material_type ?f1] k1 by blast
  have k3: "fst ` set ?f3 \<subseteq> {''is_active'', ''category'', ''material_type'', ''size''}"
    using keys_setitem_if [of "''size''" sz ?f2] k2 by blast
  have k4: "fst ` set (AList.update ''$or'' v ?f3) \<subseteq>
              {''is_active'', ''category'', ''material_type'', ''size'', ''$or''}" for v
    using k3 unfolding dom_update by blast
  show ?thesis
    unfolding list_products_filt_unfold Let_def using k3 k4 by (cases "truthy q") auto
qed

lemma map_of_list_products_filt:
  "map_of (list_products_filt category material_type sz q) k =
     (if k = ''$or'' \<and> truthy q then map_option text_search q
      else if k = ''size'' \<and> truthy sz then map_option VStr sz
      else if k = ''material_type'' \<and> truthy material_type then map_option VStr material_type
      else if k = ''category'' \<and> truthy category then map_option VStr category
      else if k = ''is_active'' then Some (VBool True) else None)"
proof (cases "truthy q")
  case False
  then show ?thesis
    unfolding list_products_filt_unfold Let_def by (simp add: map_of_setitem_if)
next
  case True
  then obtain s where "q = Some s"
    by (cases q) (simp_all add: truthy_simps)
  with True show ?thesis
    unfolding list_products_filt_unfold Let_def by (simp add: map_of_setitem_if update_conv')
qed

text \<open>
  C3, as the claim states it, fails: a request \<^verbatim>\<open>GET /api/products?category=\<close> supplies the
  parameter \<^verbatim>\<open>category\<close> with the empty string, and the filter has no \<^verbatim>\<open>category\<close> key.
\<close>

theorem list_products_filt_empty_category:
  "map_of (list_products_filt (Some []) None None None) ''category'' = None"
  by (simp add: map_of_list_products_filt truthy_simps)

text \<open>
  C3, amended. The filter of \<^verbatim>\<open>GET /api/products\<close> always has \<^verbatim>\<open>is_active = True\<close>; each of
  \<^verbatim>\<open>category\<close>, \<^verbatim>\<open>material_type\<close> and \<^verbatim>\<open>size\<close> is in the filter, unchanged, exactly when the
  client supplies it with a non-empty value; the filter has no key besides these four and
  \<^verbatim>\<open>$or\<close>; and the store is queried on the collection \<^verbatim>\<open>product\<close> with this filter and the
  limit of the request, 100 when the request has none.
\<close>

theorem list_products_passthrough:
  "map_of (list_products_filt category material_type sz q) ''is_active'' = Some (VBool True) \<and>
   map_of (list_products_filt category material_type sz q) ''category'' =
     (case category of None \<Rightarrow> None | Some s \<Rightarrow> if s = [] then None else Some (VStr s)) \<and>
   map_of (list_products_filt category material_type sz q) ''material_type'' =
     (case material_type of None \<Rightarrow> None | Some s \<Rightarrow> if s = [] then None else Some (VStr s)) \<and>
   map_of (list_products_filt category material_type sz q) ''size'' =
     (case sz of None \<Rightarrow> None | Some s \<Rightarrow> if s = [] then None else Some (VStr s)) \<and>
   fst ` set (list_products_filt category material_type sz q) \<subseteq>
     {''is_active'', ''category'', ''material_type'', ''size'', ''$or''} \<and>
   api_products S str_of
       \<lparr>query_category = category, query_material_type = material_type, query_size = sz,
        query_q = q, query_limit = limit\<rparr> d =
     (case get_documents S ''product'' (list_products_filt category material_type sz q)
             (Some (case limit of None \<Rightarrow> 100 | Some n \<Rightarrow> n)) d of
        Inl e \<Rightarrow> Inl e
      | Inr docs \<Rightarrow> Inr (VList (map (\<lambda>x. VDict (serialize_doc str_of x)) docs)))"
proof -
  have "api_products S str_of
       \<lparr>query_category = category, query_material_type = material_type, query_size = sz,
        query_q = q, query_limit = limit\<rparr> d =
     (case get_documents S ''product'' (list_products_filt category material_type sz q)
             (Some (case limit of None \<Rightarrow> 100 | Some n \<Rightarrow> n)) d of
        Inl e \<Rightarrow> Inl e
      | Inr docs \<Rightarrow> Inr (VList (map (\<lambda>x. VDict (serialize_doc str_of x)) docs)))"
    by (simp add: api_products_def list_products_def default_limit_def split: option.splits)
  then show ?thesis
    using keys_list_products_filt [of category material_type sz q]
    by (simp add: map_of_list_products_filt truthy_simps split: option.splits)
qed

text \<open>
  C4, as the claim states it, fails: a request \<^verbatim>\<open>GET /api/products?q=\<close> supplies \<^verbatim>\<open>q\<close> with
  the empty string, and the filter has no \<^verbatim>\<open>$or\<close> clause.
\<close>

theorem list_products_filt_empty_q:
  "map_of (list_products_filt None None None (Some [])) ''$or'' = None"
  by (simp add: map_of_list_products_filt truthy_simps)

text \<open>
  C4, amended. When the request supplies a non-empty \<^verbatim>\<open>q\<close>, the filter's \<^verbatim>\<open>$or\<close> is the
  list of exactly two clauses, a case-insensitive \<^verbatim>\<open>$regex\<close> of \<^verbatim>\<open>q\<close> on \<^verbatim>\<open>title\<close> and one
  on \<^verbatim>\<open>description\<close>; when \<^verbatim>\<open>q\<close> is absent or empty the filter has no \<^verbatim>\<open>$or\<close> key.
\<close>

theorem list_products_text_search:
  "map_of (list_products_filt category material_type sz q) ''$or'' =
     (case q of
        None \<Rightarrow> None
      | Some s \<Rightarrow>
          if s = [] then None
          else Some (VList
                 [VDict [(''title'', VDict [(''$regex'', VStr s), (''$options'', VStr ''i'')])],
                  VDict [(''description'',
                          VDict [(''$regex'', VStr s), (''$options'', VStr ''i'')])]]))"
  by (simp add: map_of_list_products_filt truthy_simps text_search_def split: option.splits)

section \<open>Lookup by id\<close>

lemma get_product_found:
  assumes "ObjectId product_id = Inr oid"
    and "find_one S ''product'' [(''_id'', oid)] d = Inr (Some doc)" and "doc \<noteq> []"
  shows "get_product S str_of product_id d = Inr (VDict (serialize_doc str_of doc))"
  using assms by (simp add: get_product_def)

lemma get_project_found:
  assumes "ObjectId project_id = Inr oid"
    and "find_one S ''project'' [(''_id'', oid)] d = Inr (Some doc)" and "doc \<noteq> []"
  shows "get_project S str_of project_id d = Inr (VDict (serialize_doc str_of doc))"
  using assms by (simp add: get_project_def)

lemma get_product_cases:
  "(\<exists>oid doc. ObjectId product_id = Inr oid \<and>
        find_one S ''product'' [(''_id'', oid)] d = Inr (Some doc) \<and>
        get_product S str_of product_id d = Inr (VDict (serialize_doc str_of doc))) \<or>
   get_product S str_of product_id d = Inl (HTTPException 404 ''Product not found'')"
  by (auto simp: get_product_def split: sum.splits option.splits)

lemma get_project_cases:
  "(\<exists>oid doc. ObjectId project_id = Inr oid \<and>
        find_one S ''project'' [(''_id'', oid)] d = Inr (Some doc) \<and>
        get_project S str_of project_id d = Inr (VDict (serialize_doc str_of doc))) \<or>
   get_project S str_of project_id d = Inl (HTTPException 404 ''Project not found'')"
  by (auto simp: get_project_def split: sum.splits option.splits)

text \<open>
  C9. For every path parameter, \<^verbatim>\<open>get_product\<close> either returns the serialized document that
  the store found under the parsed object id, or fails with \<^verbatim>\<open>HTTPException(404, "Product
  not found")\<close>, and \<^verbatim>\<open>get_project\<close> likewise with \<^verbatim>\<open>"Project not found"\<close>: the status of the
  answer is 200 or 404, whatever the string is and whatever the store does. When the string
  is a valid object id and the store finds a document under it, the handler returns this
  document, serialized. In every other case (the string is not a valid object id, the store
  finds nothing, the lookup raises) the handler fails with the 404.
\<close>

theorem get_by_id_found_or_404:
  "((\<exists>oid doc. ObjectId product_id = Inr oid \<and>
        find_one S ''product'' [(''_id'', oid)] d = Inr (Some doc) \<and>
        get_product S str_of product_id d = Inr (VDict (serialize_doc str_of doc))) \<or>
    get_product S str_of product_id d = Inl (HTTPException 404 ''Product not found'')) \<and>
   ((\<exists>oid doc. ObjectId project_id = Inr oid \<and>
        find_one S ''project'' [(''_id'', oid)] d = Inr (Some doc) \<and>
        get_project S str_of project_id d = Inr (VDict (serialize_doc str_of doc))) \<or>
    get_project S str_of project_id d = Inl (HTTPException 404 ''Project not found'')) \<and>
   http_status (get_product S str_of product_id d) \<in> {200, 404} \<and>
   http_status (get_project S str_of project_id d) \<in> {200, 404} \<and>
   (ObjectId product_id = Inr poid \<and>
    find_one S ''product'' [(''_id'', poid)] d = Inr (Some pdoc) \<and> pdoc \<noteq> [] \<longrightarrow>
      get_product S str_of product_id d = Inr (VDict (serialize_doc str_of pdoc))) \<and>
   (ObjectId project_id = Inr joid \<and>
    find_one S ''project'' [(''_id'', joid)] d = Inr (Some jdoc) \<and> jdoc \<noteq> [] \<longrightarrow>
      get_project S str_of project_id d = Inr (VDict (serialize_doc str_of jdoc))) \<and>
   get_product S str_of product_id d =
     (case ObjectId product_id of
        Inl e \<Rightarrow> Inl (HTTPException 404 ''Product not found'')
      | Inr oid \<Rightarrow>
          (case find_one S ''product'' [(''_id'', oid)] d of
             Inr (Some doc) \<Rightarrow>
               if doc = [] then Inl (HTTPException 404 ''Product not found'')
               else Inr (VDict (serialize_doc str_of doc))
           | _ \<Rightarrow> Inl (HTTPException 404 ''Product not found''))) \<and>
   get_project S str_of project_id d =
     (case ObjectId project_id of
        Inl e \<Rightarrow> Inl (HTTPException 404 ''Project not found'')
      | Inr oid \<Rightarrow>
          (case find_one S ''project'' [(''_id'', oid)] d of
             Inr (Some doc) \<Rightarrow>
               if doc = [] then Inl (HTTPException 404 ''Project not found'')
               else Inr (VDict (serialize_doc str_of doc))
           | _ \<Rightarrow> Inl (HTTPException 404 ''Project not found'')))"
proof -
  note p = get_product_cases [of product_id S d str_of]
  note q = get_project_cases [of project_id S d str_of]
  from p have ps: "http_status (get_product S str_of product_id d) \<in> {200, 404}"
    by auto
  from q have qs: "http_status (get_project S str_of project_id d) \<in> {200, 404}"
    by auto
  have pe: "get_product S str_of product_id d =
     (case ObjectId product_id of
        Inl e \<Rightarrow> Inl (HTTPException 404 ''Product not found'')
      | Inr oid \<Rightarrow>
          (case find_one S ''product'' [(''_id'', oid)] d of
             Inr (Some doc) \<Rightarrow>
               if doc = [] then Inl (HTTPException 404 ''Product not found'')
               else Inr (VDict (serialize_doc str_of doc))
           | _ \<Rightarrow> Inl (HTTPException 404 ''Product not found'')))"
    by (simp add: get_product_def split: sum.splits option.splits)
  have qe: "get_project S str_of project_id d =
     (case ObjectId project_id of
        Inl e \<Rightarrow> Inl (HTTPException 404 ''Project not found'')
      | Inr oid \<Rightarrow>
          (case find_one S ''project'' [(''_id'', oid)] d of
             Inr (Some doc) \<Rightarrow>
               if doc = [] then Inl (HTTPException 404 ''Project not found'')
               else Inr (VDict (serialize_doc str_of doc))
           | _ \<Rightarrow> Inl (HTTPException 404 ''Project not found'')))"
    by (simp add: get_project_def split: sum.splits option.splits)
  from p q ps qs pe qe get_product_found [of product_id poid S d pdoc str_of]
    get_project_found [of project_id joid S d jdoc str_of]
  show ?thesis by blast
qed

theorem get_by_id_found_or_404_witness:
  "ObjectId ''0123456789abcdef01234567'' =
     Inr (VOid [1, 35, 69, 103, 137, 171, 205, 239, 1, 35, 69, 103]) \<and>
   find_one found_store ''product''
       [(''_id'', VOid [1, 35, 69, 103, 137, 171, 205, 239, 1, 35, 69, 103])] [] =
     Inr (Some [(''_id'', VOid [1, 35, 69, 103, 137, 171, 205, 239, 1, 35, 69, 103]),
                (''title'', VStr ''Oak'')]) \<and>
   find_one found_store ''project''
       [(''_id'', VOid [1, 35, 69, 103, 137, 171, 205, 239, 1, 35, 69, 103])] [] =
     Inr (Some [(''_id'', VOid [1, 35, 69, 103, 137, 171, 205, 239, 1, 35, 69, 103]),
                (''title'', VStr ''Oak'')]) \<and>
   get_product found_store str_plain ''0123456789abcdef01234567'' [] =
     Inr (VDict [(''title'', VStr ''Oak''), (''id'', VStr ''0123456789abcdef01234567'')]) \<and>
   get_project found_store str_plain ''0123456789abcdef01234567'' [] =
     Inr (VDict [(''title'', VStr ''Oak''), (''id'', VStr ''0123456789abcdef01234567'')])"
proof -
  let ?oid = "VOid [1, 35, 69, 103, 137, 171, 205, 239, 1, 35, 69, 103]"
  let ?doc = "[(''_id'', ?oid), (''title'', VStr ''Oak'')]"
  have h1: "ObjectId ''0123456789abcdef01234567'' = Inr ?oid"
    by (simp add: ObjectId_def hex_value_def is_space_def)
  have h2: "find_one found_store c [(''_id'', ?oid)] [] = Inr (Some ?doc)" for c
    by (simp add: found_store_def)
  have h3: "?doc \<noteq> []"
    by simp
  have s: "serialize_doc str_plain ?doc =
             [(''title'', VStr ''Oak''), (''id'', VStr ''0123456789abcdef01234567'')]"
    by (simp add: serialize_doc_def hexlify_def hex_digit_def)
  from get_by_id_found_or_404 [of "''0123456789abcdef01234567''" found_store "[]" str_plain
      "''0123456789abcdef01234567''" ?oid ?doc ?oid ?doc] h1 h2 h3
  have "get_product found_store str_plain ''0123456789abcdef01234567'' [] =
          Inr (VDict (serialize_doc str_plain ?doc)) \<and>
        get_project found_store str_plain ''0123456789abcdef01234567'' [] =
          Inr (VDict (serialize_doc str_plain ?doc))"
    by blast
  with h1 h2 s show ?thesis
    by simp
qed

section \<open>E-mail notification\<close>

lemma py_int_blank:
  "py_int [] =
     Inl (PyException ''ValueError''
            (''invalid literal for int() with base 10: '' @ [CHR 0x27, CHR 0x27]))"
  by (simp add: py_int_def strip_def py_repr_def Let_def take_Cons')

lemma smtp_session_events: "list_all is_smtp (snd (smtp_session M host port user pass f t msg))"
  by (auto simp: smtp_session_def Let_def split: option.splits sum.splits prod.splits)

lemma maybe_send_email_events:
  "\<exists>evs. snd (maybe_send_email M env subject body) = MaybeSendEmail subject body # evs \<and>
         list_all is_smtp evs"
proof (cases "py_int (getenv_default env ''SMTP_PORT'' ''0'')")
  case (Inl e)
  then show ?thesis by (simp add: maybe_send_email_def)
next
  case (Inr n)
  show ?thesis
  proof (cases "\<exists>host port rcpt. getenv env ''SMTP_HOST'' = Some host \<and> n = port \<and> n \<noteq> 0 \<and>
                  getenv env ''EMAIL_TO'' = Some rcpt \<and> host \<noteq> [] \<and> rcpt \<noteq> []")
    case False
    with Inr have "snd (maybe_send_email M env subject body) = [MaybeSendEmail subject body]"
      by (auto simp: maybe_send_email_def Let_def split: option.splits)
    then show ?thesis by simp
  next
    case True
    then obtain host rcpt where c: "getenv env ''SMTP_HOST'' = Some host" "n \<noteq> 0"
      "getenv env ''EMAIL_TO'' = Some rcpt" "host \<noteq> []" "rcpt \<noteq> []"
      by blast
    let ?from = "getenv_default env ''EMAIL_FROM''
                   (str_or (getenv env ''SMTP_USER'') ''noreply@example.com'')"
    let ?sess = "smtp_session M host n (getenv env ''SMTP_USER'') (getenv env ''SMTP_PASS'')
                   ?from rcpt
                   \<lparr>mime_body = body, mime_subject = subject, mime_from = ?from, mime_to = rcpt\<rparr>"
    from Inr c have "snd (maybe_send_email M env subject body) =
                       MaybeSendEmail subject body # snd ?sess"
      by (auto simp: maybe_send_email_def Let_def split: option.splits prod.splits)
    then show ?thesis
      using smtp_session_events by blast
  qed
qed

text \<open>
  What holds of \<^verbatim>\<open>maybe_send_email\<close>: when \<^verbatim>\<open>SMTP_PORT\<close> is unset or a numeral, the function
  returns a result, and the result has \<^verbatim>\<open>sent = True\<close> only when \<^verbatim>\<open>sendmail\<close> was called and
  did not raise.
\<close>

lemma maybe_send_email_returns:
  assumes "py_int (getenv_default env ''SMTP_PORT'' ''0'') = Inr n"
  shows "\<exists>r evs. maybe_send_email M env subject body = (Inr r, evs)"
  using assms
  by (auto simp: maybe_send_email_def Let_def split: option.splits prod.splits)

lemma smtp_session_ok:
  assumes "smtp_session M host port user pass f t msg = (None, evs)"
  shows "\<exists>s. as_string M msg = Inr s \<and> smtp_sendmail M f [t] s = None \<and>
             SmtpSendmail f [t] s \<in> set evs"
  using assms
  by (auto simp: smtp_session_def Let_def split: option.splits sum.splits prod.splits if_splits)

lemma maybe_send_email_sent:
  assumes "maybe_send_email M env subject body = (Inr r, evs)" and "sent r"
  shows "\<exists>f t s. smtp_sendmail M f t s = None \<and> SmtpSendmail f t s \<in> set evs"
proof -
  from assms obtain host port u p f rcpt msg evs' where
    "smtp_session M host port u p f rcpt msg = (None, evs')" and "evs = MaybeSendEmail subject body # evs'"
    by (auto simp: maybe_send_email_def Let_def not_configured_def
        split: option.splits prod.splits sum.splits if_splits)
  with smtp_session_ok show ?thesis
    by fastforce
qed

text \<open>
  C2. The claim is that \<^verbatim>\<open>maybe_send_email\<close> never lets an exception out and answers
  \<^verbatim>\<open>sent = False\<close> whenever the port is not configured. With \<^verbatim>\<open>SMTP_PORT\<close> set to the empty
  string (a line \<^verbatim>\<open>SMTP_PORT=\<close> in the environment file), \<^verbatim>\<open>int("")\<close> raises
  \<^verbatim>\<open>ValueError\<close> before the \<^verbatim>\<open>try\<close> block is entered, and the exception leaves the function,
  whatever the mail server, the subject and the body are.
\<close>

theorem maybe_send_email_blank_port_raises:
  "maybe_send_email M env_blank_port subject body =
     (Inl (PyException ''ValueError''
             (''invalid literal for int() with base 10: '' @ [CHR 0x27, CHR 0x27])),
      [MaybeSendEmail subject body])"
  by (simp add: maybe_send_email_def env_blank_port_def getenv_default_def py_int_blank)

section \<open>Lead capture\<close>

text \<open>
  When \<^verbatim>\<open>SMTP_PORT\<close> is unset or a numeral and the insert returns, \<^verbatim>\<open>create_quote\<close> and
  \<^verbatim>\<open>create_contact\<close> answer with the inserted id and the result of the e-mail attempt,
  whatever the mail server does.
\<close>

lemma create_quote_returns_id:
  assumes "py_int (getenv_default env ''SMTP_PORT'' ''0'') = Inr n"
    and "create_document S ''quoterequest'' (MQuote p) d = (Inr i, d')"
  shows "\<exists>res evs. create_quote S M env p d =
           (Inr (VDict [(''id'', i), (''email'', model_dump res)]), d', evs)"
proof -
  from maybe_send_email_returns [OF assms(1)] obtain res evs where
    "maybe_send_email M env ''New Quote Request'' (quote_body p) = (Inr res, evs)"
    by blast
  with assms(2) show ?thesis
    by (auto simp: create_quote_def)
qed

lemma create_contact_returns_id:
  assumes "py_int (getenv_default env ''SMTP_PORT'' ''0'') = Inr n"
    and "create_document S ''contactmessage'' (MContact c) d = (Inr i, d')"
  shows "\<exists>res evs. create_contact S M env c d =
           (Inr (VDict [(''id'', i), (''email'', model_dump res)]), d', evs)"
proof -
  from maybe_send_email_returns [OF assms(1)] obtain res evs where
    "maybe_send_email M env ''New Contact Message'' (contact_body c) = (Inr res, evs)"
    by blast
  with assms(2) show ?thesis
    by (auto simp: create_contact_def)
qed

text \<open>
  C1. The claim is that the e-mail never makes the request fail. In the environment with
  the empty \<^verbatim>\<open>SMTP_PORT\<close>, \<^verbatim>\<open>create_quote\<close> and \<^verbatim>\<open>create_contact\<close> insert the payload and then
  fail with the \<^verbatim>\<open>ValueError\<close> of \<^verbatim>\<open>maybe_send_email\<close>: the document is in the store and the
  client gets status 500 and no id.
\<close>

theorem create_lead_blank_port_fails:
  "create_quote mem_store M env_blank_port quote_example [] =
     (Inl (Unhandled (PyException ''ValueError''
                        (''invalid literal for int() with base 10: '' @ [CHR 0x27, CHR 0x27]))),
      [(''quoterequest'', MQuote quote_example)],
      [CreateDocument ''quoterequest'' (MQuote quote_example),
       MaybeSendEmail ''New Quote Request'' (quote_body quote_example)]) \<and>
   create_contact mem_store M env_blank_port contact_example [] =
     (Inl (Unhandled (PyException ''ValueError''
                        (''invalid literal for int() with base 10: '' @ [CHR 0x27, CHR 0x27]))),
      [(''contactmessage'', MContact contact_example)],
      [CreateDocument ''contactmessage'' (MContact contact_example),
       MaybeSendEmail ''New Contact Message'' (contact_body contact_example)]) \<and>
   http_status (fst (create_quote mem_store M env_blank_port quote_example [])) = 500"
  by (simp add: create_quote_def create_contact_def mem_store_def
      maybe_send_email_def env_blank_port_def getenv_default_def py_int_blank)

text \<open>
  C7. The first call of \<^verbatim>\<open>create_quote\<close> is the insert of the payload. When the insert
  raises, the handler raises the same exception and makes no further call. When the insert
  returns, the next call is \<^verbatim>\<open>maybe_send_email\<close> with the body built from the payload that
  was inserted, and only the calls of the mail session follow. The same holds of
  \<^verbatim>\<open>create_contact\<close>.
\<close>

theorem insert_before_email:
  "(case create_document S ''quoterequest'' (MQuote p) d of
      (Inl e, d') \<Rightarrow>
        create_quote S M env p d = (Inl e, d', [CreateDocument ''quoterequest'' (MQuote p)])
    | (Inr i, d') \<Rightarrow>
        (\<exists>r evs. create_quote S M env p d =
                    (r, d', CreateDocument ''quoterequest'' (MQuote p) #
                            MaybeSendEmail ''New Quote Request'' (quote_body p) # evs) \<and>
                  list_all is_smtp evs)) \<and>
   (case create_document S ''contactmessage'' (MContact c) d of
      (Inl e, d') \<Rightarrow>
        create_contact S M env c d = (Inl e, d', [CreateDocument ''contactmessage'' (MContact c)])
    | (Inr i, d') \<Rightarrow>
        (\<exists>r evs. create_contact S M env c d =
                    (r, d', CreateDocument ''contactmessage'' (MContact c) #
                            MaybeSendEmail ''New Contact Message'' (contact_body c) # evs) \<and>
                  list_all is_smtp evs))"
proof -
  obtain qevs where q: "snd (maybe_send_email M env ''New Quote Request'' (quote_body p)) =
      MaybeSendEmail ''New Quote Request'' (quote_body p) # qevs" "list_all is_smtp qevs"
    using maybe_send_email_events by blast
  obtain cevs where c: "snd (maybe_send_email M env ''New Contact Message'' (contact_body c)) =
      MaybeSendEmail ''New Contact Message'' (contact_body c) # cevs" "list_all is_smtp cevs"
    using maybe_send_email_events by blast
  have "case create_document S ''quoterequest'' (MQuote p) d of
      (Inl e, d') \<Rightarrow>
        create_quote S M env p d = (Inl e, d', [CreateDocument ''quoterequest'' (MQuote p)])
    | (Inr i, d') \<Rightarrow>
        (\<exists>r evs. create_quote S M env p d =
                    (r, d', CreateDocument ''quoterequest'' (MQuote p) #
                            MaybeSendEmail ''New Quote Request'' (quote_body p) # evs) \<and>
                  list_all is_smtp evs)"
    using q by (auto simp: create_quote_def split: prod.splits sum.splits)
  moreover have "case create_document S ''contactmessage'' (MContact c) d of
      (Inl e, d') \<Rightarrow>
        create_contact S M env c d = (Inl e, d', [CreateDocument ''contactmessage'' (MContact c)])
    | (Inr i, d') \<Rightarrow>
        (\<exists>r evs. create_contact S M env c d =
                    (r, d', CreateDocument ''contactmessage'' (MContact c) #
                            MaybeSendEmail ''New Contact Message'' (contact_body c) # evs) \<and>
                  list_all is_smtp evs)"
    using c by (auto simp: create_contact_def split: prod.splits sum.splits)
  ultimately show ?thesis by blast
qed

section \<open>Validation\<close>

lemma validate_QuoteRequest_Inr:
  assumes "validate_QuoteRequest ve body = Inr p"
  shows "\<exists>obj e. body = VDict obj \<and> map_of obj ''name'' = Some (VStr (quote_name p)) \<and>
                 map_of obj ''email'' = Some (VStr e) \<and> ve e = Some (quote_email p)"
proof -
  from assms obtain obj where b: "body = VDict obj"
    by (cases body) (simp_all add: validate_QuoteRequest_def)
  from assms b obtain n e where
    n: "required_str obj ''name'' = Some n" and e: "email_str ve obj ''email'' = Some e" and
    p: "quote_name p = n" "quote_email p = e"
    by (auto simp: validate_QuoteRequest_def split: option.splits)
  from n have "map_of obj ''name'' = Some (VStr n)"
    by (auto simp: required_str_def split: option.splits pyval.splits)
  moreover from e obtain s where "map_of obj ''email'' = Some (VStr s)" "ve s = Some e"
    by (auto simp: email_str_def split: option.splits pyval.splits)
  ultimately show ?thesis using b p by blast
qed

lemma validate_ContactMessage_Inr:
  assumes "validate_ContactMessage ve body = Inr c"
  shows "\<exists>obj e. body = VDict obj \<and> map_of obj ''name'' = Some (VStr (contact_name c)) \<and>
                 map_of obj ''email'' = Some (VStr e) \<and> ve e = Some (contact_email c) \<and>
                 map_of obj ''message'' = Some (VStr (contact_message c))"
proof -
  from assms obtain obj where b: "body = VDict obj"
    by (cases body) (simp_all add: validate_ContactMessage_def)
  from assms b obtain n e m where
    n: "required_str obj ''name'' = Some n" and e: "email_str ve obj ''email'' = Some e" and
    m: "required_str obj ''message'' = Some m" and
    p: "contact_name c = n" "contact_email c = e" "contact_message c = m"
    by (auto simp: validate_ContactMessage_def split: option.splits)
  from n have "map_of obj ''name'' = Some (VStr n)"
    by (auto simp: required_str_def split: option.splits pyval.splits)
  moreover from m have "map_of obj ''message'' = Some (VStr m)"
    by (auto simp: required_str_def split: option.splits pyval.splits)
  moreover from e obtain s where "map_of obj ''email'' = Some (VStr s)" "ve s = Some e"
    by (auto simp: email_str_def split: option.splits pyval.splits)
  ultimately show ?thesis using b p by blast
qed

lemma validate_QuoteRequest_Inl:
  "validate_QuoteRequest ve body = Inl err \<Longrightarrow> err = RequestValidationError"
  by (auto simp: validate_QuoteRequest_def split: pyval.splits option.splits)

lemma validate_ContactMessage_Inl:
  "validate_ContactMessage ve body = Inl err \<Longrightarrow> err = RequestValidationError"
  by (auto simp: validate_ContactMessage_def split: pyval.splits option.splits)

lemma validate_minimal:
  "validate_QuoteRequest ve (VDict [(''name'', VStr n), (''email'', VStr e)]) =
     (case ve e of
        None \<Rightarrow> Inl RequestValidationError
      | Some e' \<Rightarrow> Inr \<lparr>quote_name = n, quote_company = None, quote_email = e',
                        quote_phone = None, quote_message = None, quote_product = None\<rparr>)"
  "validate_ContactMessage ve (VDict [(''name'', VStr n), (''email'', VStr e)]) =
     Inl RequestValidationError"
  by (simp_all add: validate_QuoteRequest_def validate_ContactMessage_def required_str_def
      optional_str_def email_str_def split: option.splits)

text \<open>
  C6. The body of \<^verbatim>\<open>POST /api/quote\<close> is validated before the handler runs. When the
  validation fails the request is answered with the validation error (status 422), the
  database is as before and no call was made. When it succeeds the body is a JSON object
  whose \<^verbatim>\<open>name\<close> is a string and whose \<^verbatim>\<open>email\<close> is a string that the e-mail validator
  accepts, and the handler runs on the model. The same holds of \<^verbatim>\<open>POST /api/contact\<close>,
  whose body must also have a string \<^verbatim>\<open>message\<close>. A body with a name and a valid e-mail
  only is a quote request (the other four fields are optional) and is not a contact message.
\<close>

theorem validated_before_insert:
  "(case validate_QuoteRequest ve body of
      Inl err \<Rightarrow>
        api_quote S M ve env body d = (Inl RequestValidationError, d, []) \<and>
        http_status (fst (api_quote S M ve env body d)) = 422
    | Inr p \<Rightarrow>
        (\<exists>obj e. body = VDict obj \<and> map_of obj ''name'' = Some (VStr (quote_name p)) \<and>
                 map_of obj ''email'' = Some (VStr e) \<and> ve e = Some (quote_email p)) \<and>
        api_quote S M ve env body d = create_quote S M env p d) \<and>
   (case validate_ContactMessage ve body of
      Inl err \<Rightarrow>
        api_contact S M ve env body d = (Inl RequestValidationError, d, []) \<and>
        http_status (fst (api_contact S M ve env body d)) = 422
    | Inr c \<Rightarrow>
        (\<exists>obj e. body = VDict obj \<and> map_of obj ''name'' = Some (VStr (contact_name c)) \<and>
                 map_of obj ''email'' = Some (VStr e) \<and> ve e = Some (contact_email c) \<and>
                 map_of obj ''message'' = Some (VStr (contact_message c))) \<and>
        api_contact S M ve env body d = create_contact S M env c d) \<and>
   validate_QuoteRequest ve (VDict [(''name'', VStr n), (''email'', VStr a)]) =
     (case ve a of
        None \<Rightarrow> Inl RequestValidationError
      | Some a' \<Rightarrow> Inr \<lparr>quote_name = n, quote_company = None, quote_email = a',
                        quote_phone = None, quote_message = None, quote_product = None\<rparr>) \<and>
   validate_ContactMessage ve (VDict [(''name'', VStr n), (''email'', VStr a)]) =
     Inl RequestValidationError"
proof -
  have q: "case validate_QuoteRequest ve body of
      Inl err \<Rightarrow>
        api_quote S M ve env body d = (Inl RequestValidationError, d, []) \<and>
        http_status (fst (api_quote S M ve env body d)) = 422
    | Inr p \<Rightarrow>
        (\<exists>obj e. body = VDict obj \<and> map_of obj ''name'' = Some (VStr (quote_name p)) \<and>
                 map_of obj ''email'' = Some (VStr e) \<and> ve e = Some (quote_email p)) \<and>
        api_quote S M ve env body d = create_quote S M env p d"
  proof (cases "validate_QuoteRequest ve body")
    case (Inl err)
    with validate_QuoteRequest_Inl [OF Inl] show ?thesis
      by (simp add: api_quote_def)
  next
    case (Inr p)
    with validate_QuoteRequest_Inr [OF Inr] show ?thesis
      by (simp add: api_quote_def)
  qed
  have c: "case validate_ContactMessage ve body of
      Inl err \<Rightarrow>
        api_contact S M ve env body d = (Inl RequestValidationError, d, []) \<and>
        http_status (fst (api_contact S M ve env body d)) = 422
    | Inr c \<Rightarrow>
        (\<exists>obj e. body = VDict obj \<and> map_of obj ''name'' = Some (VStr (contact_name c)) \<and>
                 map_of obj ''email'' = Some (VStr e) \<and> ve e = Some (contact_email c) \<and>
                 map_of obj ''message'' = Some (VStr (contact_message c))) \<and>
        api_contact S M ve env body d = create_contact S M env c d"
  proof (cases "validate_ContactMessage ve body")
    case (Inl err)
    with validate_ContactMessage_Inl [OF Inl] show ?thesis
      by (simp add: api_contact_def)
  next
    case (Inr c)
    with validate_ContactMessage_Inr [OF Inr] show ?thesis
      by (simp add: api_contact_def)
  qed
  from q c validate_minimal [of ve n a] show ?thesis
    by blast
qed

section \<open>No state between requests\<close>












end
